theory Spec2Isabelle
  imports Complex_Main
begin

section \<open>Interactive view of the line chart\<close>

text \<open>
  A shallow embedding of \<^verbatim>\<open>LineChartInteractiveViewComponent\<close>
  (\<^verbatim>\<open>line_chart_interactive_view.ts\<close>). The component is a record of its mutable
  fields; every event handler subscribed in \<^verbatim>\<open>ngAfterViewInit\<close> is a function from
  the component to the list of effects it performs, in order, and the updated component.
  JavaScript numbers are modelled as finite reals: rounding, NaN and the infinities are not
  represented. The handlers are those that run between \<^verbatim>\<open>ngAfterViewInit\<close> and
  \<^verbatim>\<open>ngOnDestroy\<close>; the subscription life cycle itself is not modelled.
\<close>

subsection \<open>Types of \<^verbatim>\<open>lib/public_types\<close>\<close>

text \<open>
  Modelled from the spec: the declarations of \<^verbatim>\<open>Point\<close>, \<^verbatim>\<open>Dimension\<close>,
  \<^verbatim>\<open>Rect\<close>, \<^verbatim>\<open>Extent\<close>, \<^verbatim>\<open>Scale\<close>, \<^verbatim>\<open>DataSeries\<close> and
  \<^verbatim>\<open>DataSeriesMetadataMap\<close> live in \<^verbatim>\<open>lib/public_types\<close>; the records below have
  the fields that the component reads and writes. The spec lists \<^verbatim>\<open>aux\<close> as a boolean; the
  component coerces it with \<^verbatim>\<open>Boolean(metadata.aux)\<close>, so an absent flag (\<open>None\<close>) is
  admitted here and counts as false.
\<close>

record Point =
  p_x :: real
  p_y :: real

record Dimension =
  dim_width :: real
  dim_height :: real

record Rect =
  rect_x :: real
  rect_width :: real
  rect_height :: real
  rect_y :: real

record Extent =
  ext_x :: "real \<times> real"
  ext_y :: "real \<times> real"

record Scale =
  forward :: "real \<times> real \<Rightarrow> real \<times> real \<Rightarrow> real \<Rightarrow> real"
  reverse :: "real \<times> real \<Rightarrow> real \<times> real \<Rightarrow> real \<Rightarrow> real"

record DataSeries =
  series_id :: string
  points :: "Point list"

record DataSeriesMetadata =
  visible :: bool
  aux :: "bool option"

type_synonym DataSeriesMetadataMap = "string \<rightharpoonup> DataSeriesMetadata"

datatype Axis = AxisX | AxisY

subsection \<open>Types declared by the component\<close>

text \<open>
  \<^verbatim>\<open>metadata\<close> is whatever \<^verbatim>\<open>seriesMetadataMap[seriesData.id]\<close> evaluates to, which is
  \<^verbatim>\<open>undefined\<close> for a missing key: the field is an option. In \<^verbatim>\<open>point\<close>, \<open>None\<close>
  stands for \<^verbatim>\<open>null\<close> and for the \<^verbatim>\<open>undefined\<close> of an index outside the array.
\<close>

record TooltipDatum =
  datum_id :: string
  metadata :: "DataSeriesMetadata option"
  indClosest :: "nat option"
  point :: "Point option"

datatype InteractionState = NONE | DRAG_ZOOMING | SCROLL_ZOOMING | PANNING

definition SCROLL_ZOOM_SPEED_FACTOR :: real where
  "SCROLL_ZOOM_SPEED_FACTOR = 0.01"

text \<open>The fields of DOM events that the handlers read; a wheel event is a mouse event.\<close>

record MouseEvent =
  offsetX :: real
  offsetY :: real
  movementX :: real
  movementY :: real
  ctrlKey :: bool
  shiftKey :: bool
  altKey :: bool

record WheelEvent = MouseEvent +
  deltaX :: real
  deltaY :: real
  deltaMode :: nat

text \<open>The \<^verbatim>\<open>@Input()\<close> properties read by the handlers.\<close>

record Inputs =
  seriesData :: "DataSeries list"
  seriesMetadataMap :: DataSeriesMetadataMap
  viewExtent :: Extent
  xScale :: Scale
  yScale :: Scale
  domDim :: Dimension

text \<open>
  The functions imported from \<^verbatim>\<open>chart_view_utils\<close> and
  \<^verbatim>\<open>line_chart_interactive_utils\<close>. Their bodies are not part of the component, so the
  component is modelled over any such functions.
\<close>

record Helpers =
  getScaleRangeFromDomDim :: "Dimension \<Rightarrow> Axis \<Rightarrow> real \<times> real"
  findClosestIndex :: "Point list \<Rightarrow> real \<Rightarrow> nat option"
  proposeViewExtentOnZoom :: "WheelEvent \<Rightarrow> Extent \<Rightarrow> Dimension \<Rightarrow> real \<Rightarrow> Extent"

text \<open>
  The mutable fields of the component. \<open>zoomInstructionTimer\<close> is not a field of the
  class: it records whether the inner \<^verbatim>\<open>timer(3000)\<close> of the wheel stream's
  \<^verbatim>\<open>switchMap\<close> is pending.
\<close>

record Component =
  state :: InteractionState
  zoomBoxInUiCoordinate :: Rect
  cursorXLocation :: "real option"
  cursoredData :: "TooltipDatum list"
  tooltipDislayAttached :: bool
  showZoomInstruction :: bool
  dragStartCoord :: "Point option"
  isCursorInside :: bool
  zoomInstructionTimer :: bool

definition initial :: Component where
  "initial = \<lparr>state = NONE,
     zoomBoxInUiCoordinate = \<lparr>rect_x = 0, rect_width = 0, rect_height = 0, rect_y = 0\<rparr>,
     cursorXLocation = None, cursoredData = [], tooltipDislayAttached = False,
     showZoomInstruction = False, dragStartCoord = None, isCursorInside = False,
     zoomInstructionTimer = False\<rparr>"

text \<open>What a handler does to its collaborators, in the order of the calls.\<close>

datatype Effect =
  PreventDefault
  | ViewExtentChange Extent
  | ViewExtentReset
  | MarkForCheck

fun viewExtentChanges :: "Effect list \<Rightarrow> Extent list" where
  "viewExtentChanges [] = []"
| "viewExtentChanges (ViewExtentChange e # es) = e # viewExtentChanges es"
| "viewExtentChanges (_ # es) = viewExtentChanges es"

subsection \<open>Coordinate mapping\<close>

definition getDomX :: "Helpers \<Rightarrow> Inputs \<Rightarrow> real \<Rightarrow> real" where
  "getDomX h i uiCoord =
     forward (xScale i) (ext_x (viewExtent i)) (getScaleRangeFromDomDim h (domDim i) AxisX) uiCoord"

definition getDataX :: "Helpers \<Rightarrow> Inputs \<Rightarrow> real \<Rightarrow> real" where
  "getDataX h i uiCoord =
     reverse (xScale i) (ext_x (viewExtent i)) (getScaleRangeFromDomDim h (domDim i) AxisX) uiCoord"

definition getDomY :: "Helpers \<Rightarrow> Inputs \<Rightarrow> real \<Rightarrow> real" where
  "getDomY h i uiCoord =
     forward (yScale i) (ext_y (viewExtent i)) (getScaleRangeFromDomDim h (domDim i) AxisY) uiCoord"

definition getDataY :: "Helpers \<Rightarrow> Inputs \<Rightarrow> real \<Rightarrow> real" where
  "getDataY h i uiCoord =
     reverse (yScale i) (ext_y (viewExtent i)) (getScaleRangeFromDomDim h (domDim i) AxisY) uiCoord"

subsection \<open>Tooltip resolution\<close>

text \<open>\<^verbatim>\<open>Boolean(x)\<close> of an optional boolean.\<close>

fun Boolean :: "bool option \<Rightarrow> bool" where
  "Boolean None = False"
| "Boolean (Some b) = b"

text \<open>\<^verbatim>\<open>points[index]\<close>: outside the array JavaScript yields \<^verbatim>\<open>undefined\<close>.\<close>

definition atIndex :: "'a list \<Rightarrow> nat \<Rightarrow> 'a option" where
  "atIndex xs k = (if k < length xs then Some (xs ! k) else None)"

text \<open>The four stages of the pipeline, as chained in the source.\<close>

definition withMetadata :: "Inputs \<Rightarrow> DataSeries \<Rightarrow> DataSeries \<times> DataSeriesMetadata option" where
  "withMetadata i s = (s, seriesMetadataMap i (series_id s))"

fun shownInTooltip :: "DataSeries \<times> DataSeriesMetadata option \<Rightarrow> bool" where
  "shownInTooltip (s, None) = False"
| "shownInTooltip (s, Some m) = (visible m \<and> \<not> Boolean (aux m))"

definition toDatum :: "Helpers \<Rightarrow> real \<Rightarrow> DataSeries \<times> DataSeriesMetadata option \<Rightarrow> TooltipDatum" where
  "toDatum h cursorX sm =
     (let index = findClosestIndex h (points (fst sm)) cursorX
      in \<lparr>datum_id = series_id (fst sm),
          metadata = snd sm,
          indClosest = index,
          point = (case index of None \<Rightarrow> None | Some k \<Rightarrow> atIndex (points (fst sm)) k)\<rparr>)"

definition updateCursoredDataAndTooltipVisibility :: "Helpers \<Rightarrow> Inputs \<Rightarrow> Component \<Rightarrow> Component" where
  "updateCursoredDataAndTooltipVisibility h i c =
     (case cursorXLocation c of
        None \<Rightarrow> c
      | Some cursorX \<Rightarrow>
          (let c1 = c\<lparr>cursoredData :=
                 filter (\<lambda>d. indClosest d \<noteq> None)
                   (map (toDatum h cursorX)
                      (filter shownInTooltip (map (withMetadata i) (seriesData i))))\<rparr>
           in c1\<lparr>tooltipDislayAttached := (isCursorInside c1 \<and> length (cursoredData c1) \<noteq> 0)\<rparr>))"

definition updateTooltip :: "Helpers \<Rightarrow> Inputs \<Rightarrow> 'a MouseEvent_scheme \<Rightarrow> Component \<Rightarrow> Component" where
  "updateTooltip h i event c =
     updateCursoredDataAndTooltipVisibility h i (c\<lparr>cursorXLocation := Some (getDataX h i (offsetX event))\<rparr>)"

definition ngOnChanges :: "Helpers \<Rightarrow> Inputs \<Rightarrow> Component \<Rightarrow> Component" where
  "ngOnChanges h i c = updateCursoredDataAndTooltipVisibility h i c"

definition onTooltipDisplayDetached :: "Component \<Rightarrow> Component" where
  "onTooltipDisplayDetached c = c\<lparr>tooltipDislayAttached := False\<rparr>"

definition trackBySeriesName :: "nat \<Rightarrow> TooltipDatum \<Rightarrow> string" where
  "trackBySeriesName index datum = datum_id datum"

subsection \<open>Event handlers\<close>

definition on_dblclick :: "Component \<Rightarrow> Effect list \<times> Component" where
  "on_dblclick c = ([PreventDefault, ViewExtentReset, MarkForCheck], c\<lparr>state := NONE\<rparr>)"

definition on_mousedown :: "'a MouseEvent_scheme \<Rightarrow> Component \<Rightarrow> Effect list \<times> Component" where
  "on_mousedown event c =
     (let c1 = c\<lparr>state := (if shiftKey event then PANNING else DRAG_ZOOMING)\<rparr>;
          c2 = c1\<lparr>dragStartCoord := Some \<lparr>p_x = offsetX event, p_y = offsetY event\<rparr>\<rparr>;
          c3 = (if state c2 = DRAG_ZOOMING
                then c2\<lparr>zoomBoxInUiCoordinate :=
                       \<lparr>rect_x = offsetX event, rect_width = 0, rect_height = 0, rect_y = offsetY event\<rparr>\<rparr>
                else c2)
      in ([PreventDefault, MarkForCheck], c3))"

definition on_mouseup :: "Helpers \<Rightarrow> Inputs \<Rightarrow> Component \<Rightarrow> Effect list \<times> Component" where
  "on_mouseup h i c =
     (let c1 = c\<lparr>dragStartCoord := None\<rparr>;
          zoomBox = zoomBoxInUiCoordinate c1;
          emitted =
            (if state c1 = DRAG_ZOOMING \<and> rect_width zoomBox > 0 \<and> rect_height zoomBox > 0
             then (let xMin = getDataX h i (rect_x zoomBox);
                       xMax = getDataX h i (rect_x zoomBox + rect_width zoomBox);
                       yMin = getDataY h i (rect_y zoomBox + rect_height zoomBox);
                       yMax = getDataY h i (rect_y zoomBox)
                   in [ViewExtentChange \<lparr>ext_x = (xMin, xMax), ext_y = (yMin, yMax)\<rparr>])
             else [])
      in if state c1 \<noteq> NONE
         then (emitted @ [MarkForCheck], c1\<lparr>state := NONE\<rparr>)
         else (emitted, c1))"

definition on_mouseenter :: "Helpers \<Rightarrow> Inputs \<Rightarrow> 'a MouseEvent_scheme \<Rightarrow> Component \<Rightarrow> Effect list \<times> Component" where
  "on_mouseenter h i event c =
     ([MarkForCheck], updateTooltip h i event (c\<lparr>isCursorInside := True\<rparr>))"

definition on_mouseleave :: "Helpers \<Rightarrow> Inputs \<Rightarrow> 'a MouseEvent_scheme \<Rightarrow> Component \<Rightarrow> Effect list \<times> Component" where
  "on_mouseleave h i event c =
     (let c1 = c\<lparr>dragStartCoord := None\<rparr>;
          c2 = c1\<lparr>isCursorInside := False\<rparr>;
          c3 = updateTooltip h i event c2
      in ([MarkForCheck], c3\<lparr>state := NONE\<rparr>))"

text \<open>
  \<^verbatim>\<open>Math.min(...xs)\<close> and \<^verbatim>\<open>Math.max(...xs)\<close> are applied to two-element arrays only,
  so they are the binary \<open>min\<close> and \<open>max\<close>.
\<close>

definition on_mousemove :: "Helpers \<Rightarrow> Inputs \<Rightarrow> 'a MouseEvent_scheme \<Rightarrow> Component \<Rightarrow> Effect list \<times> Component" where
  "on_mousemove h i event c =
     (case state c of
        SCROLL_ZOOMING \<Rightarrow> ([MarkForCheck], updateTooltip h i event (c\<lparr>state := NONE\<rparr>))
      | NONE \<Rightarrow> ([MarkForCheck], updateTooltip h i event c)
      | PANNING \<Rightarrow>
          (let deltaX = - movementX event;
               deltaY = - movementY event;
               domWidth = dim_width (domDim i);
               domHeight = dim_height (domDim i);
               xMin = getDataX h i deltaX;
               xMax = getDataX h i (domWidth + deltaX);
               yMin = getDataY h i (domHeight + deltaY);
               yMax = getDataY h i deltaY
           in ([ViewExtentChange \<lparr>ext_x = (xMin, xMax), ext_y = (yMin, yMax)\<rparr>], c))
      | DRAG_ZOOMING \<Rightarrow>
          (case dragStartCoord c of
             None \<Rightarrow> ([], c)
           | Some start \<Rightarrow>
               (let xs = (p_x start, offsetX event);
                    ys = (p_y start, offsetY event)
                in ([MarkForCheck],
                    c\<lparr>zoomBoxInUiCoordinate :=
                        \<lparr>rect_x = min (fst xs) (snd xs),
                         rect_width = max (fst xs) (snd xs) - min (fst xs) (snd xs),
                         rect_height = max (fst ys) (snd ys) - min (fst ys) (snd ys),
                         rect_y = min (fst ys) (snd ys)\<rparr>\<rparr>))))"

text \<open>
  The wheel stream. The \<^verbatim>\<open>switchMap\<close> callback runs for every wheel event and drops the
  inner stream of the previous one (a pending timer is cancelled). For a zoom gesture the
  inner stream \<^verbatim>\<open>of(event)\<close> delivers the event at once, it passes the filter, and the
  subscriber runs; otherwise a timer is started, whose \<^verbatim>\<open>null\<close> the filter drops.
\<close>

definition wheel_subscriber :: "Helpers \<Rightarrow> Inputs \<Rightarrow> WheelEvent \<Rightarrow> Component \<Rightarrow> Effect list \<times> Component" where
  "wheel_subscriber h i event c =
     (let emitted = [PreventDefault,
            ViewExtentChange
              (proposeViewExtentOnZoom h event (viewExtent i) (domDim i) SCROLL_ZOOM_SPEED_FACTOR)]
      in if state c \<noteq> SCROLL_ZOOMING
         then (emitted @ [MarkForCheck], c\<lparr>state := SCROLL_ZOOMING\<rparr>)
         else (emitted, c))"

definition on_wheel :: "Helpers \<Rightarrow> Inputs \<Rightarrow> WheelEvent \<Rightarrow> Component \<Rightarrow> Effect list \<times> Component" where
  "on_wheel h i event c =
     (let shouldZoom = (\<not> ctrlKey event \<and> \<not> shiftKey event \<and> altKey event);
          c1 = c\<lparr>showZoomInstruction := \<not> shouldZoom\<rparr>
      in if shouldZoom
         then (let r = wheel_subscriber h i event (c1\<lparr>zoomInstructionTimer := False\<rparr>)
               in (MarkForCheck # fst r, snd r))
         else ([MarkForCheck], c1\<lparr>zoomInstructionTimer := True\<rparr>))"

text \<open>The pending timer fires: the \<^verbatim>\<open>tap\<close> hides the instruction.\<close>

definition on_timer :: "Component \<Rightarrow> Effect list \<times> Component" where
  "on_timer c =
     (if zoomInstructionTimer c
      then ([MarkForCheck], c\<lparr>showZoomInstruction := False, zoomInstructionTimer := False\<rparr>)
      else ([], c))"

subsection \<open>Runs of the component\<close>

datatype Event =
  DblClick
  | MouseDown MouseEvent
  | MouseUp
  | MouseEnter MouseEvent
  | MouseLeave MouseEvent
  | MouseMove MouseEvent
  | Wheel WheelEvent
  | TimerFired
  | InputsChanged
  | TooltipDetached

text \<open>One event, handled with the inputs that are current when it arrives.\<close>

fun handle :: "Helpers \<Rightarrow> Inputs \<Rightarrow> Event \<Rightarrow> Component \<Rightarrow> Effect list \<times> Component" where
  "handle h i DblClick c = on_dblclick c"
| "handle h i (MouseDown e) c = on_mousedown e c"
| "handle h i MouseUp c = on_mouseup h i c"
| "handle h i (MouseEnter e) c = on_mouseenter h i e c"
| "handle h i (MouseLeave e) c = on_mouseleave h i e c"
| "handle h i (MouseMove e) c = on_mousemove h i e c"
| "handle h i (Wheel e) c = on_wheel h i e c"
| "handle h i TimerFired c = on_timer c"
| "handle h i InputsChanged c = ([], ngOnChanges h i c)"
| "handle h i TooltipDetached c = ([], onTooltipDisplayDetached c)"

text \<open>A run: the events in order, each with the inputs current at that moment.\<close>

fun run :: "Helpers \<Rightarrow> (Inputs \<times> Event) list \<Rightarrow> Component \<Rightarrow> Component" where
  "run h [] c = c"
| "run h ((i, e) # es) c = run h es (snd (handle h i e c))"


subsection \<open>Stand-ins for the imported helpers\<close>

text \<open>
  Modelled from the spec: \<^verbatim>\<open>getScaleRangeFromDomDim\<close> (\<^verbatim>\<open>chart_view_utils\<close>) is not
  among the sources. The spec calls it the pixel-space range derived from the container's
  dimension for an axis, and notes that pixel y grows downward: the x range runs from 0 to
  the width, the y range from the height to 0.
\<close>

definition scaleRange :: "Dimension \<Rightarrow> Axis \<Rightarrow> real \<times> real" where
  "scaleRange d a = (case a of AxisX \<Rightarrow> (0, dim_width d) | AxisY \<Rightarrow> (dim_height d, 0))"

text \<open>
  Modelled from the spec: \<^verbatim>\<open>findClosestIndex\<close> (\<^verbatim>\<open>line_chart_interactive_utils\<close>) is
  not among the sources. The spec asks for the index of the point whose x is closest to the
  cursor, nearest by absolute distance with the first index winning a tie, and for no index
  on an empty point list.
\<close>

fun closestIndex :: "Point list \<Rightarrow> real \<Rightarrow> nat option" where
  "closestIndex [] t = None"
| "closestIndex (p # ps) t =
     (case closestIndex ps t of
        None \<Rightarrow> Some 0
      | Some k \<Rightarrow> if \<bar>p_x p - t\<bar> \<le> \<bar>p_x (ps ! k) - t\<bar> then Some 0 else Some (Suc k))"

text \<open>
  Modelled from the spec: \<^verbatim>\<open>proposeViewExtentOnZoom\<close>
  (\<^verbatim>\<open>line_chart_interactive_utils\<close>) is not among the sources. The spec says only that it
  computes a new view extent from the wheel event, the current extent, the dimension and a
  speed factor; this sample moves every bound outward by the wheel delta times the factor.
\<close>

definition zoomProposal :: "WheelEvent \<Rightarrow> Extent \<Rightarrow> Dimension \<Rightarrow> real \<Rightarrow> Extent" where
  "zoomProposal e ext d f =
     \<lparr>ext_x = (fst (ext_x ext) - deltaY e * f, snd (ext_x ext) + deltaY e * f),
      ext_y = (fst (ext_y ext) - deltaY e * f, snd (ext_y ext) + deltaY e * f)\<rparr>"

definition ex_helpers :: Helpers where
  "ex_helpers = \<lparr>getScaleRangeFromDomDim = scaleRange, findClosestIndex = closestIndex,
     proposeViewExtentOnZoom = zoomProposal\<rparr>"

subsection \<open>Sample inputs\<close>

text \<open>A linear scale, one of the scales a chart supplies.\<close>

definition linearScale :: Scale where
  "linearScale =
     \<lparr>forward = (\<lambda>d r v. fst r + (v - fst d) / (snd d - fst d) * (snd r - fst r)),
      reverse = (\<lambda>d r p. fst d + (p - fst r) / (snd r - fst r) * (snd d - fst d))\<rparr>"

text \<open>A value inside a domain, for a domain and a pixel range that are not degenerate.\<close>

definition nonDegenerate :: "real \<times> real \<Rightarrow> real \<times> real \<Rightarrow> real \<Rightarrow> bool" where
  "nonDegenerate d r u =
     (fst d \<noteq> snd d \<and> fst r \<noteq> snd r \<and> min (fst d) (snd d) \<le> u \<and> u \<le> max (fst d) (snd d))"

text \<open>
  Five series: two visible ones, an auxiliary one, a visible one without points, and one
  without metadata.
\<close>

definition ex_series :: "DataSeries list" where
  "ex_series =
     [\<lparr>series_id = ''a'', points = [\<lparr>p_x = 0, p_y = 1\<rparr>, \<lparr>p_x = 10, p_y = 2\<rparr>, \<lparr>p_x = 20, p_y = 3\<rparr>]\<rparr>,
      \<lparr>series_id = ''b'', points = [\<lparr>p_x = 0, p_y = 7\<rparr>, \<lparr>p_x = 10, p_y = 8\<rparr>]\<rparr>,
      \<lparr>series_id = ''c'', points = []\<rparr>,
      \<lparr>series_id = ''d'', points = [\<lparr>p_x = 4, p_y = 5\<rparr>, \<lparr>p_x = 6, p_y = 9\<rparr>]\<rparr>,
      \<lparr>series_id = ''e'', points = [\<lparr>p_x = 1, p_y = 1\<rparr>]\<rparr>]"

definition ex_metadata :: DataSeriesMetadataMap where
  "ex_metadata =
     [''a'' \<mapsto> \<lparr>visible = True, aux = None\<rparr>,
      ''b'' \<mapsto> \<lparr>visible = True, aux = Some True\<rparr>,
      ''c'' \<mapsto> \<lparr>visible = True, aux = Some False\<rparr>,
      ''d'' \<mapsto> \<lparr>visible = True, aux = Some False\<rparr>]"

definition ex_inputs :: Inputs where
  "ex_inputs = \<lparr>seriesData = ex_series, seriesMetadataMap = ex_metadata,
     viewExtent = \<lparr>ext_x = (0, 100), ext_y = (0, 50)\<rparr>,
     xScale = linearScale, yScale = linearScale,
     domDim = \<lparr>dim_width = 200, dim_height = 100\<rparr>\<rparr>"

definition mouseAt :: "real \<Rightarrow> real \<Rightarrow> MouseEvent" where
  "mouseAt px py = \<lparr>offsetX = px, offsetY = py, movementX = 0, movementY = 0,
     ctrlKey = False, shiftKey = False, altKey = False\<rparr>"

definition wheelWith :: "bool \<Rightarrow> bool \<Rightarrow> bool \<Rightarrow> WheelEvent" where
  "wheelWith ctrl shift alt = \<lparr>offsetX = 100, offsetY = 50, movementX = 0, movementY = 0,
     ctrlKey = ctrl, shiftKey = shift, altKey = alt, deltaX = 0, deltaY = 100, deltaMode = 0\<rparr>"

text \<open>The component after a press at (10, 10), and after a further move to (50, 40).\<close>

definition ex_pressed :: Component where
  "ex_pressed = run ex_helpers [(ex_inputs, MouseDown (mouseAt 10 10))] initial"

definition ex_dragged :: Component where
  "ex_dragged = run ex_helpers
     [(ex_inputs, MouseDown (mouseAt 10 10)), (ex_inputs, MouseMove (mouseAt 50 40))] initial"

text \<open>The component after a press with Shift held.\<close>

definition ex_panning :: Component where
  "ex_panning = run ex_helpers
     [(ex_inputs, MouseDown ((mouseAt 10 10)\<lparr>shiftKey := True\<rparr>))] initial"

text \<open>The cursor at data position 7, inside the chart.\<close>

definition ex_inside :: Component where
  "ex_inside = initial\<lparr>cursorXLocation := Some 7, isCursorInside := True\<rparr>"

text \<open>The component after the pointer entered at pixel (10, 10).\<close>

definition ex_entered :: Component where
  "ex_entered = run ex_helpers [(ex_inputs, MouseEnter (mouseAt 10 10))] initial"

text \<open>A run in which no event sets the cursor position.\<close>

definition ex_before_cursor :: "(Inputs \<times> Event) list" where
  "ex_before_cursor =
     [(ex_inputs, InputsChanged), (ex_inputs, MouseDown (mouseAt 10 10)), (ex_inputs, MouseUp),
      (ex_inputs, InputsChanged)]"

text \<open>While the cursor position is unset, there is no tooltip data and no attached tooltip.\<close>

definition cursorUnsetInv :: "Component \<Rightarrow> bool" where
  "cursorUnsetInv c =
     (cursorXLocation c = None \<longrightarrow> cursoredData c = [] \<and> \<not> tooltipDislayAttached c)"

section \<open>Properties\<close>

subsection \<open>Auxiliary facts\<close>

lemma viewExtentChanges_append [simp]:
  "viewExtentChanges (xs @ ys) = viewExtentChanges xs @ viewExtentChanges ys"
  by (induction xs rule: viewExtentChanges.induct) simp_all

lemma withMetadata_sel [simp]:
  "fst (withMetadata i s) = s" "snd (withMetadata i s) = seriesMetadataMap i (series_id s)"
  by (simp_all add: withMetadata_def)

lemma shownInTooltip_withMetadata:
  "shownInTooltip (withMetadata i s) =
     (case seriesMetadataMap i (series_id s) of
        None \<Rightarrow> False
      | Some m \<Rightarrow> visible m \<and> aux m \<noteq> Some True)"
proof (cases "seriesMetadataMap i (series_id s)")
  case None
  then show ?thesis by (simp add: withMetadata_def)
next
  case (Some m)
  then show ?thesis by (cases "aux m") (simp_all add: withMetadata_def)
qed

lemma cursoredData_update:
  "cursorXLocation c = Some cursorX \<Longrightarrow>
   cursoredData (updateCursoredDataAndTooltipVisibility h i c) =
     map (\<lambda>s. toDatum h cursorX (withMetadata i s))
       (filter (\<lambda>s. shownInTooltip (withMetadata i s) \<and> findClosestIndex h (points s) cursorX \<noteq> None)
          (seriesData i))"
  by (simp add: updateCursoredDataAndTooltipVisibility_def Let_def filter_map o_def toDatum_def)

lemma cursoredData_entries:
  assumes "cursorXLocation c = Some cursorX"
    and "d \<in> set (cursoredData (updateCursoredDataAndTooltipVisibility h i c))"
  shows "\<exists>s\<in>set (seriesData i). \<exists>k. datum_id d = series_id s
           \<and> findClosestIndex h (points s) cursorX = Some k
           \<and> indClosest d = Some k \<and> point d = atIndex (points s) k"
  using assms by (auto simp: cursoredData_update toDatum_def Let_def)

lemma update_skips:
  "cursorXLocation c = None \<Longrightarrow> updateCursoredDataAndTooltipVisibility h i c = c"
  by (simp add: updateCursoredDataAndTooltipVisibility_def)

lemma updateTooltip_cursor:
  "cursorXLocation (updateTooltip h i event c) = Some (getDataX h i (offsetX event))"
  by (simp add: updateTooltip_def updateCursoredDataAndTooltipVisibility_def Let_def)

text \<open>The invariant of the unset cursor holds in every run.\<close>

lemma cursorUnsetInv_update:
  "cursorUnsetInv c \<Longrightarrow> cursorUnsetInv (updateCursoredDataAndTooltipVisibility h i c)"
  by (cases "cursorXLocation c")
    (simp_all add: cursorUnsetInv_def updateCursoredDataAndTooltipVisibility_def Let_def)

lemma cursorUnsetInv_handle:
  assumes "cursorUnsetInv c"
  shows "cursorUnsetInv (snd (handle h i e c))"
proof (cases e)
  case DblClick
  with assms show ?thesis by (simp add: cursorUnsetInv_def on_dblclick_def)
next
  case (MouseDown ev)
  with assms show ?thesis by (simp add: cursorUnsetInv_def on_mousedown_def Let_def)
next
  case MouseUp
  with assms show ?thesis by (simp add: cursorUnsetInv_def on_mouseup_def Let_def)
next
  case (MouseEnter ev)
  then show ?thesis by (simp add: cursorUnsetInv_def on_mouseenter_def updateTooltip_cursor)
next
  case (MouseLeave ev)
  then show ?thesis
    by (simp add: cursorUnsetInv_def on_mouseleave_def Let_def updateTooltip_cursor)
next
  case (MouseMove ev)
  show ?thesis
  proof (cases "state c")
    case NONE
    with MouseMove show ?thesis
      by (simp add: cursorUnsetInv_def on_mousemove_def updateTooltip_cursor)
  next
    case DRAG_ZOOMING
    with MouseMove assms show ?thesis
      by (cases "dragStartCoord c") (simp_all add: cursorUnsetInv_def on_mousemove_def Let_def)
  next
    case SCROLL_ZOOMING
    with MouseMove show ?thesis
      by (simp add: cursorUnsetInv_def on_mousemove_def updateTooltip_cursor)
  next
    case PANNING
    with MouseMove assms show ?thesis
      by (simp add: cursorUnsetInv_def on_mousemove_def Let_def)
  qed
next
  case (Wheel ev)
  with assms show ?thesis
    by (simp add: cursorUnsetInv_def on_wheel_def wheel_subscriber_def Let_def)
next
  case TimerFired
  with assms show ?thesis by (simp add: cursorUnsetInv_def on_timer_def)
next
  case InputsChanged
  with assms show ?thesis by (simp add: ngOnChanges_def cursorUnsetInv_update)
next
  case TooltipDetached
  with assms show ?thesis by (simp add: cursorUnsetInv_def onTooltipDisplayDetached_def)
qed

lemma cursorUnsetInv_run: "cursorUnsetInv c \<Longrightarrow> cursorUnsetInv (run h es c)"
proof (induction es arbitrary: c)
  case Nil
  then show ?case by simp
next
  case (Cons ie es)
  obtain i e where ie: "ie = (i, e)" by (cases ie)
  from Cons.prems have "cursorUnsetInv (snd (handle h i e c))" by (rule cursorUnsetInv_handle)
  then have "cursorUnsetInv (run h es (snd (handle h i e c)))" by (rule Cons.IH)
  with ie show ?case by simp
qed

lemma cursorUnsetInv_initial: "cursorUnsetInv initial"
  by (simp add: cursorUnsetInv_def initial_def)

subsection \<open>Facts about the samples\<close>

lemma closestIndex_in_range: "closestIndex ps t = Some k \<Longrightarrow> k < length ps"
  by (induction ps arbitrary: k) (auto split: option.splits if_splits)

lemma linearScale_inverse:
  "nonDegenerate d r u \<Longrightarrow> reverse linearScale d r (forward linearScale d r u) = u"
  by (simp add: linearScale_def nonDegenerate_def)

lemma ex_getDataX: "getDataX ex_helpers ex_inputs p = p / 2"
  by (simp add: getDataX_def ex_helpers_def ex_inputs_def linearScale_def scaleRange_def)

lemma ex_getDataY: "getDataY ex_helpers ex_inputs p = (100 - p) / 2"
  by (simp add: getDataY_def ex_helpers_def ex_inputs_def linearScale_def scaleRange_def field_simps)

lemma ex_domDim: "domDim ex_inputs = \<lparr>dim_width = 200, dim_height = 100\<rparr>"
  by (simp add: ex_inputs_def)

lemma ex_pressed_eq:
  "ex_pressed = \<lparr>state = DRAG_ZOOMING,
     zoomBoxInUiCoordinate = \<lparr>rect_x = 10, rect_width = 0, rect_height = 0, rect_y = 10\<rparr>,
     cursorXLocation = None, cursoredData = [], tooltipDislayAttached = False,
     showZoomInstruction = False, dragStartCoord = Some \<lparr>p_x = 10, p_y = 10\<rparr>,
     isCursorInside = False, zoomInstructionTimer = False\<rparr>"
  by (simp add: ex_pressed_def initial_def mouseAt_def on_mousedown_def Let_def)

lemma ex_dragged_eq:
  "ex_dragged = \<lparr>state = DRAG_ZOOMING,
     zoomBoxInUiCoordinate = \<lparr>rect_x = 10, rect_width = 40, rect_height = 30, rect_y = 10\<rparr>,
     cursorXLocation = None, cursoredData = [], tooltipDislayAttached = False,
     showZoomInstruction = False, dragStartCoord = Some \<lparr>p_x = 10, p_y = 10\<rparr>,
     isCursorInside = False, zoomInstructionTimer = False\<rparr>"
  by (simp add: ex_dragged_def initial_def mouseAt_def on_mousedown_def on_mousemove_def Let_def)

lemma ex_panning_state: "state ex_panning = PANNING"
  by (simp add: ex_panning_def on_mousedown_def mouseAt_def initial_def Let_def)

lemma ex_closest:
  "closestIndex [\<lparr>p_x = 0, p_y = 1\<rparr>, \<lparr>p_x = 10, p_y = 2\<rparr>, \<lparr>p_x = 20, p_y = 3\<rparr>] 7 = Some 1"
  "closestIndex [\<lparr>p_x = 0, p_y = 7\<rparr>, \<lparr>p_x = 10, p_y = 8\<rparr>] 7 = Some 1"
  "closestIndex [\<lparr>p_x = 4, p_y = 5\<rparr>, \<lparr>p_x = 6, p_y = 9\<rparr>] 7 = Some 1"
  "closestIndex [\<lparr>p_x = 1, p_y = 1\<rparr>] 7 = Some 0"
  "closestIndex [] 7 = None"
  by simp_all

lemma ex_inside_data:
  "cursoredData (updateCursoredDataAndTooltipVisibility ex_helpers ex_inputs ex_inside) =
     [\<lparr>datum_id = ''a'', metadata = Some \<lparr>visible = True, aux = None\<rparr>,
        indClosest = Some 1, point = Some \<lparr>p_x = 10, p_y = 2\<rparr>\<rparr>,
      \<lparr>datum_id = ''d'', metadata = Some \<lparr>visible = True, aux = Some False\<rparr>,
        indClosest = Some 1, point = Some \<lparr>p_x = 6, p_y = 9\<rparr>\<rparr>]"
  by (simp add: updateCursoredDataAndTooltipVisibility_def toDatum_def withMetadata_def
      ex_inside_def initial_def ex_inputs_def ex_helpers_def ex_series_def ex_metadata_def
      atIndex_def ex_closest Let_def del: closestIndex.simps)

lemma ex_before_cursor_run:
  "run ex_helpers ex_before_cursor initial =
     \<lparr>state = NONE,
      zoomBoxInUiCoordinate = \<lparr>rect_x = 10, rect_width = 0, rect_height = 0, rect_y = 10\<rparr>,
      cursorXLocation = None, cursoredData = [], tooltipDislayAttached = False,
      showZoomInstruction = False, dragStartCoord = None, isCursorInside = False,
      zoomInstructionTimer = False\<rparr>"
  by (simp add: ex_before_cursor_def initial_def ngOnChanges_def
      updateCursoredDataAndTooltipVisibility_def on_mousedown_def on_mouseup_def mouseAt_def Let_def)

subsection \<open>Mouse up\<close>

text \<open>
  Claim C1. On mouse up in state \<open>DRAG_ZOOMING\<close> with a zoom box of strictly positive width
  and height, exactly one view-extent change is emitted; its x extent is the data image of
  the left and right edges of the box, its y extent the data image of the bottom edge
  (\<open>y + height\<close>) and of the top edge (\<open>y\<close>). With zero width or zero height nothing is
  emitted. In every case the drag origin is cleared, and a state other than \<open>NONE\<close>
  becomes \<open>NONE\<close>.
\<close>

theorem mouseup_commits_zoom_box:
  assumes "box = zoomBoxInUiCoordinate c" and "(effects, c') = on_mouseup h i c"
  shows "(state c = DRAG_ZOOMING \<and> 0 < rect_width box \<and> 0 < rect_height box \<longrightarrow>
            viewExtentChanges effects =
              [\<lparr>ext_x = (getDataX h i (rect_x box), getDataX h i (rect_x box + rect_width box)),
                ext_y = (getDataY h i (rect_y box + rect_height box), getDataY h i (rect_y box))\<rparr>])
       \<and> (rect_width box = 0 \<or> rect_height box = 0 \<longrightarrow> viewExtentChanges effects = [])
       \<and> (state c \<noteq> DRAG_ZOOMING \<longrightarrow> viewExtentChanges effects = [])
       \<and> dragStartCoord c' = None
       \<and> (state c \<noteq> NONE \<longrightarrow> state c' = NONE)
       \<and> (state c = NONE \<longrightarrow> state c' = NONE)"
  using assms by (auto simp: on_mouseup_def Let_def split: if_splits)

theorem mouseup_commits_zoom_box_witness:
  "state ex_dragged = DRAG_ZOOMING
   \<and> 0 < rect_width (zoomBoxInUiCoordinate ex_dragged)
   \<and> 0 < rect_height (zoomBoxInUiCoordinate ex_dragged)
   \<and> viewExtentChanges (fst (on_mouseup ex_helpers ex_inputs ex_dragged))
       = [\<lparr>ext_x = (5, 25), ext_y = (30, 45)\<rparr>]
   \<and> state (snd (on_mouseup ex_helpers ex_inputs ex_dragged)) = NONE
   \<and> rect_width (zoomBoxInUiCoordinate ex_pressed) = 0
   \<and> viewExtentChanges (fst (on_mouseup ex_helpers ex_inputs ex_pressed)) = []
   \<and> dragStartCoord (snd (on_mouseup ex_helpers ex_inputs ex_pressed)) = None"
  using mouseup_commits_zoom_box [OF refl surjective_pairing [symmetric], of ex_dragged ex_helpers ex_inputs]
    mouseup_commits_zoom_box [OF refl surjective_pairing [symmetric], of ex_pressed ex_helpers ex_inputs]
  by (simp add: ex_dragged_eq ex_pressed_eq ex_getDataX ex_getDataY)

subsection \<open>Wheel\<close>

text \<open>
  Claim C2. A wheel event is taken as a zoom gesture exactly when Alt is held and neither
  Ctrl nor Shift is. Then the default is prevented, exactly one view-extent change is
  emitted, carrying what the zoom-proposal function returns for the event, the current
  extent, the dimension and the factor 0.01, and the state becomes \<open>SCROLL_ZOOMING\<close>.
  Otherwise no view-extent change is emitted and \<open>showZoomInstruction\<close> becomes true.
\<close>

theorem wheel_zoom_gesture:
  assumes "(effects, c') = on_wheel h i event c"
  shows "(PreventDefault \<in> set effects) = (altKey event \<and> \<not> ctrlKey event \<and> \<not> shiftKey event)
       \<and> (altKey event \<and> \<not> ctrlKey event \<and> \<not> shiftKey event \<longrightarrow>
            viewExtentChanges effects =
              [proposeViewExtentOnZoom h event (viewExtent i) (domDim i) 0.01]
            \<and> state c' = SCROLL_ZOOMING)
       \<and> (\<not> (altKey event \<and> \<not> ctrlKey event \<and> \<not> shiftKey event) \<longrightarrow>
            viewExtentChanges effects = [] \<and> showZoomInstruction c' \<and> state c' = state c)"
  using assms
  by (auto simp: on_wheel_def wheel_subscriber_def SCROLL_ZOOM_SPEED_FACTOR_def Let_def
      split: if_splits)

theorem wheel_zoom_gesture_witness:
  "altKey (wheelWith False False True) \<and> \<not> ctrlKey (wheelWith False False True)
   \<and> \<not> shiftKey (wheelWith False False True)
   \<and> viewExtentChanges (fst (on_wheel ex_helpers ex_inputs (wheelWith False False True) initial))
       = [\<lparr>ext_x = (-1, 101), ext_y = (-1, 51)\<rparr>]
   \<and> state (snd (on_wheel ex_helpers ex_inputs (wheelWith False False True) initial)) = SCROLL_ZOOMING
   \<and> \<not> (altKey (wheelWith True False True) \<and> \<not> ctrlKey (wheelWith True False True)
         \<and> \<not> shiftKey (wheelWith True False True))
   \<and> viewExtentChanges (fst (on_wheel ex_helpers ex_inputs (wheelWith True False True) initial)) = []
   \<and> showZoomInstruction (snd (on_wheel ex_helpers ex_inputs (wheelWith True False True) initial))"
  using wheel_zoom_gesture [OF surjective_pairing [symmetric],
      of ex_helpers ex_inputs "wheelWith False False True" initial]
    wheel_zoom_gesture [OF surjective_pairing [symmetric],
      of ex_helpers ex_inputs "wheelWith True False True" initial]
  by (simp add: wheelWith_def ex_helpers_def ex_inputs_def zoomProposal_def)

subsection \<open>Coordinate round trip\<close>

text \<open>
  Claim C3. For both axes, mapping a value to a display pixel and back gives the value
  again, for every in-range value, provided that the reverse transform of the supplied
  scale inverts its forward transform on in-range values for the same domain and pixel
  range. The notion of in-range is a parameter. Numbers are reals here, so the equality is
  exact; a tolerance for rounding is outside the model.
\<close>

theorem coordinate_round_trip:
  assumes "\<And>d r u. inRange d r u \<Longrightarrow> reverse (xScale i) d r (forward (xScale i) d r u) = u"
    and "\<And>d r u. inRange d r u \<Longrightarrow> reverse (yScale i) d r (forward (yScale i) d r u) = u"
    and "inRange (ext_x (viewExtent i)) (getScaleRangeFromDomDim h (domDim i) AxisX) v"
    and "inRange (ext_y (viewExtent i)) (getScaleRangeFromDomDim h (domDim i) AxisY) w"
  shows "getDataX h i (getDomX h i v) = v \<and> getDataY h i (getDomY h i w) = w"
  using assms by (simp add: getDataX_def getDomX_def getDataY_def getDomY_def)

theorem coordinate_round_trip_witness:
  "nonDegenerate (ext_x (viewExtent ex_inputs)) (getScaleRangeFromDomDim ex_helpers (domDim ex_inputs) AxisX) 30
   \<and> nonDegenerate (ext_y (viewExtent ex_inputs)) (getScaleRangeFromDomDim ex_helpers (domDim ex_inputs) AxisY) 20
   \<and> getDomX ex_helpers ex_inputs 30 = 60
   \<and> getDataX ex_helpers ex_inputs (getDomX ex_helpers ex_inputs 30) = 30
   \<and> getDomY ex_helpers ex_inputs 20 = 60
   \<and> getDataY ex_helpers ex_inputs (getDomY ex_helpers ex_inputs 20) = 20"
proof -
  have x: "\<And>d r u. nonDegenerate d r u \<Longrightarrow>
      reverse (xScale ex_inputs) d r (forward (xScale ex_inputs) d r u) = u"
    by (simp add: ex_inputs_def linearScale_inverse)
  have y: "\<And>d r u. nonDegenerate d r u \<Longrightarrow>
      reverse (yScale ex_inputs) d r (forward (yScale ex_inputs) d r u) = u"
    by (simp add: ex_inputs_def linearScale_inverse)
  have vx: "nonDegenerate (ext_x (viewExtent ex_inputs))
      (getScaleRangeFromDomDim ex_helpers (domDim ex_inputs) AxisX) 30"
    by (simp add: nonDegenerate_def ex_inputs_def ex_helpers_def scaleRange_def)
  have vy: "nonDegenerate (ext_y (viewExtent ex_inputs))
      (getScaleRangeFromDomDim ex_helpers (domDim ex_inputs) AxisY) 20"
    by (simp add: nonDegenerate_def ex_inputs_def ex_helpers_def scaleRange_def)
  have dx: "getDomX ex_helpers ex_inputs 30 = 60"
    by (simp add: getDomX_def ex_inputs_def ex_helpers_def scaleRange_def linearScale_def)
  have dy: "getDomY ex_helpers ex_inputs 20 = 60"
    by (simp add: getDomY_def ex_inputs_def ex_helpers_def scaleRange_def linearScale_def)
  from coordinate_round_trip [of nonDegenerate ex_inputs ex_helpers 30 20, OF x y vx vy] vx vy dx dy
  show ?thesis by simp
qed

subsection \<open>Mouse move\<close>

text \<open>
  Claim C4. A mouse move in state \<open>PANNING\<close> emits exactly one view-extent change: its x
  extent is the data image of \<open>- movementX\<close> and of \<open>domWidth - movementX\<close>, its y extent the
  data image of \<open>domHeight - movementY\<close> and of \<open>- movementY\<close>. The component, and with it
  the state \<open>PANNING\<close>, is unchanged.
\<close>

theorem mousemove_panning:
  assumes "state c = PANNING"
  shows "on_mousemove h i event c =
     ([ViewExtentChange
         \<lparr>ext_x = (getDataX h i (- movementX event),
                   getDataX h i (dim_width (domDim i) - movementX event)),
          ext_y = (getDataY h i (dim_height (domDim i) - movementY event),
                   getDataY h i (- movementY event))\<rparr>], c)"
  using assms by (simp add: on_mousemove_def Let_def)

theorem mousemove_panning_witness:
  "state ex_panning = PANNING
   \<and> on_mousemove ex_helpers ex_inputs ((mouseAt 20 10)\<lparr>movementX := 10\<rparr>) ex_panning =
       ([ViewExtentChange \<lparr>ext_x = (-5, 95), ext_y = (0, 50)\<rparr>], ex_panning)"
  using mousemove_panning [OF ex_panning_state, of ex_helpers ex_inputs "(mouseAt 20 10)\<lparr>movementX := 10\<rparr>"]
    ex_panning_state
  by (simp add: ex_getDataX ex_getDataY mouseAt_def ex_domDim)

text \<open>
  Claim C7. A mouse move in state \<open>DRAG_ZOOMING\<close> with a recorded drag origin sets the zoom
  box to the bounding rectangle of the origin and the pointer: the corner is the
  componentwise minimum, width and height are the componentwise maximum minus the minimum,
  so the two edges on each axis are the two coordinates. Nothing else changes, the state
  stays \<open>DRAG_ZOOMING\<close>, and no view-extent change is emitted.
\<close>

theorem mousemove_drag_zooming:
  assumes "state c = DRAG_ZOOMING" and "dragStartCoord c = Some start"
    and "(effects, c') = on_mousemove h i event c"
    and "box = zoomBoxInUiCoordinate c'"
  shows "rect_x box = min (p_x start) (offsetX event)
       \<and> rect_y box = min (p_y start) (offsetY event)
       \<and> rect_width box = max (p_x start) (offsetX event) - min (p_x start) (offsetX event)
       \<and> rect_height box = max (p_y start) (offsetY event) - min (p_y start) (offsetY event)
       \<and> rect_width box = \<bar>offsetX event - p_x start\<bar>
       \<and> rect_height box = \<bar>offsetY event - p_y start\<bar>
       \<and> {rect_x box, rect_x box + rect_width box} = {p_x start, offsetX event}
       \<and> {rect_y box, rect_y box + rect_height box} = {p_y start, offsetY event}
       \<and> state c' = DRAG_ZOOMING
       \<and> c' = c\<lparr>zoomBoxInUiCoordinate := box\<rparr>
       \<and> viewExtentChanges effects = []"
  using assms by (auto simp: on_mousemove_def Let_def min_def max_def)

theorem mousemove_drag_zooming_witness:
  "state ex_pressed = DRAG_ZOOMING
   \<and> dragStartCoord ex_pressed = Some \<lparr>p_x = 10, p_y = 10\<rparr>
   \<and> zoomBoxInUiCoordinate (snd (on_mousemove ex_helpers ex_inputs (mouseAt 4 40) ex_pressed))
       = \<lparr>rect_x = 4, rect_width = 6, rect_height = 30, rect_y = 10\<rparr>
   \<and> state (snd (on_mousemove ex_helpers ex_inputs (mouseAt 4 40) ex_pressed)) = DRAG_ZOOMING
   \<and> viewExtentChanges (fst (on_mousemove ex_helpers ex_inputs (mouseAt 4 40) ex_pressed)) = []"
proof -
  have st: "state ex_pressed = DRAG_ZOOMING"
    and dr: "dragStartCoord ex_pressed = Some \<lparr>p_x = 10, p_y = 10\<rparr>"
    by (simp_all add: ex_pressed_eq)
  from mousemove_drag_zooming [OF st dr surjective_pairing [symmetric] refl,
      of ex_helpers ex_inputs "mouseAt 4 40"] st dr
  show ?thesis
    by (simp add: mouseAt_def Rect.equality)
qed

subsection \<open>Tooltip data\<close>

text \<open>
  Claim C5. With the cursor position set, a cursor update leaves in \<open>cursoredData\<close> exactly
  one datum, in order, for each series whose metadata exists, is visible and is not marked
  auxiliary, and for which the closest-index search returns an index. A series without an
  index drops out alone, since the list is a filter of the series. The attached flag is
  true exactly when the cursor is inside and the list is not empty.
\<close>

theorem cursored_data_per_eligible_series:
  assumes "cursorXLocation c = Some cursorX"
    and "c' = updateCursoredDataAndTooltipVisibility h i c"
  shows "cursoredData c' =
           map (\<lambda>s. \<lparr>datum_id = series_id s,
                      metadata = seriesMetadataMap i (series_id s),
                      indClosest = findClosestIndex h (points s) cursorX,
                      point = (case findClosestIndex h (points s) cursorX of
                                 None \<Rightarrow> None
                               | Some k \<Rightarrow> atIndex (points s) k)\<rparr>)
             (filter (\<lambda>s. (case seriesMetadataMap i (series_id s) of
                              None \<Rightarrow> False
                            | Some m \<Rightarrow> visible m \<and> aux m \<noteq> Some True)
                           \<and> findClosestIndex h (points s) cursorX \<noteq> None)
                (seriesData i))
       \<and> tooltipDislayAttached c' = (isCursorInside c \<and> cursoredData c' \<noteq> [])"
proof -
  have "cursoredData c' =
      map (\<lambda>s. toDatum h cursorX (withMetadata i s))
        (filter (\<lambda>s. shownInTooltip (withMetadata i s) \<and> findClosestIndex h (points s) cursorX \<noteq> None)
           (seriesData i))"
    using assms by (simp add: cursoredData_update)
  then have data: "cursoredData c' =
      map (\<lambda>s. \<lparr>datum_id = series_id s,
                 metadata = seriesMetadataMap i (series_id s),
                 indClosest = findClosestIndex h (points s) cursorX,
                 point = (case findClosestIndex h (points s) cursorX of
                            None \<Rightarrow> None
                          | Some k \<Rightarrow> atIndex (points s) k)\<rparr>)
        (filter (\<lambda>s. (case seriesMetadataMap i (series_id s) of
                         None \<Rightarrow> False
                       | Some m \<Rightarrow> visible m \<and> aux m \<noteq> Some True)
                      \<and> findClosestIndex h (points s) cursorX \<noteq> None)
           (seriesData i))"
    by (simp add: shownInTooltip_withMetadata toDatum_def Let_def cong: option.case_cong)
  have "tooltipDislayAttached c' = (isCursorInside c \<and> cursoredData c' \<noteq> [])"
    using assms by (simp add: updateCursoredDataAndTooltipVisibility_def Let_def)
  with data show ?thesis by simp
qed

theorem cursored_data_per_eligible_series_witness:
  "cursorXLocation ex_inside = Some 7
   \<and> cursoredData (updateCursoredDataAndTooltipVisibility ex_helpers ex_inputs ex_inside) =
       [\<lparr>datum_id = ''a'', metadata = Some \<lparr>visible = True, aux = None\<rparr>,
          indClosest = Some 1, point = Some \<lparr>p_x = 10, p_y = 2\<rparr>\<rparr>,
        \<lparr>datum_id = ''d'', metadata = Some \<lparr>visible = True, aux = Some False\<rparr>,
          indClosest = Some 1, point = Some \<lparr>p_x = 6, p_y = 9\<rparr>\<rparr>]
   \<and> tooltipDislayAttached (updateCursoredDataAndTooltipVisibility ex_helpers ex_inputs ex_inside)"
  using cursored_data_per_eligible_series [OF _ refl, of ex_inside 7 ex_helpers ex_inputs]
  by (simp add: ex_inside_def initial_def ex_inputs_def ex_helpers_def ex_series_def
      ex_metadata_def atIndex_def ex_closest del: closestIndex.simps)

text \<open>
  Claim C10. After a cursor update, every datum of \<open>cursoredData\<close> belongs to a series of
  the input, has an index, and has as its point the element of that series' point list at
  that index. The closest-index search is taken to return only indices inside the list it
  is given.
\<close>

theorem cursored_data_entries_resolved:
  assumes "\<And>ps t k. findClosestIndex h ps t = Some k \<Longrightarrow> k < length ps"
    and "cursorXLocation c \<noteq> None"
  shows "(\<forall>d\<in>set (cursoredData (updateCursoredDataAndTooltipVisibility h i c)).
            \<exists>s\<in>set (seriesData i). \<exists>k. datum_id d = series_id s \<and> indClosest d = Some k
              \<and> k < length (points s) \<and> point d = Some (points s ! k))
       \<and> (\<forall>d\<in>set (cursoredData (updateTooltip h i event c)).
            \<exists>s\<in>set (seriesData i). \<exists>k. datum_id d = series_id s \<and> indClosest d = Some k
              \<and> k < length (points s) \<and> point d = Some (points s ! k))"
proof -
  have entries: "\<exists>s\<in>set (seriesData i). \<exists>k. datum_id d = series_id s \<and> indClosest d = Some k
      \<and> k < length (points s) \<and> point d = Some (points s ! k)"
    if cur: "cursorXLocation c0 = Some cursorX"
      and d: "d \<in> set (cursoredData (updateCursoredDataAndTooltipVisibility h i c0))"
    for c0 cursorX d
  proof -
    from cursoredData_entries [OF cur d] obtain s k where s: "s \<in> set (seriesData i)"
      and eqs: "datum_id d = series_id s" "findClosestIndex h (points s) cursorX = Some k"
        "indClosest d = Some k" "point d = atIndex (points s) k"
      by blast
    from assms(1) eqs(2) have "k < length (points s)" .
    with s eqs show ?thesis by (auto simp: atIndex_def)
  qed
  from assms(2) obtain cursorX where "cursorXLocation c = Some cursorX" by blast
  then have first: "\<forall>d\<in>set (cursoredData (updateCursoredDataAndTooltipVisibility h i c)).
      \<exists>s\<in>set (seriesData i). \<exists>k. datum_id d = series_id s \<and> indClosest d = Some k
        \<and> k < length (points s) \<and> point d = Some (points s ! k)"
    using entries by blast
  have "cursorXLocation (c\<lparr>cursorXLocation := Some (getDataX h i (offsetX event))\<rparr>)
      = Some (getDataX h i (offsetX event))"
    by simp
  then have "\<forall>d\<in>set (cursoredData (updateTooltip h i event c)).
      \<exists>s\<in>set (seriesData i). \<exists>k. datum_id d = series_id s \<and> indClosest d = Some k
        \<and> k < length (points s) \<and> point d = Some (points s ! k)"
    unfolding updateTooltip_def using entries by blast
  with first show ?thesis by simp
qed

theorem cursored_data_entries_resolved_witness:
  "cursorXLocation ex_inside \<noteq> None
   \<and> \<lparr>datum_id = ''d'', metadata = Some \<lparr>visible = True, aux = Some False\<rparr>,
        indClosest = Some 1, point = Some \<lparr>p_x = 6, p_y = 9\<rparr>\<rparr>
       \<in> set (cursoredData (updateCursoredDataAndTooltipVisibility ex_helpers ex_inputs ex_inside))
   \<and> (\<exists>s\<in>set (seriesData ex_inputs). \<exists>k. ''d'' = series_id s \<and> Some (1::nat) = Some k
         \<and> k < length (points s) \<and> Some \<lparr>p_x = 6, p_y = 9\<rparr> = Some (points s ! k))"
proof -
  have contract: "\<And>ps t k. findClosestIndex ex_helpers ps t = Some k \<Longrightarrow> k < length ps"
    by (simp add: ex_helpers_def closestIndex_in_range)
  have cur: "cursorXLocation ex_inside \<noteq> None"
    by (simp add: ex_inside_def)
  have mem: "\<lparr>datum_id = ''d'', metadata = Some \<lparr>visible = True, aux = Some False\<rparr>,
        indClosest = Some 1, point = Some \<lparr>p_x = 6, p_y = 9\<rparr>\<rparr>
      \<in> set (cursoredData (updateCursoredDataAndTooltipVisibility ex_helpers ex_inputs ex_inside))"
    by (simp add: ex_inside_data)
  from cursored_data_entries_resolved [of ex_helpers ex_inside ex_inputs "mouseAt 14 0", OF contract cur]
  have "\<forall>d\<in>set (cursoredData (updateCursoredDataAndTooltipVisibility ex_helpers ex_inputs ex_inside)).
      \<exists>s\<in>set (seriesData ex_inputs). \<exists>k. datum_id d = series_id s \<and> indClosest d = Some k
        \<and> k < length (points s) \<and> point d = Some (points s ! k)"
    by (rule conjunct1)
  from bspec [OF this mem] cur mem show ?thesis by simp
qed

text \<open>
  Claim C8. With the cursor position unset, the tooltip update returns the component as it
  is, and so does \<open>ngOnChanges\<close>. In every run from the initial component an unset cursor
  comes with an empty \<open>cursoredData\<close> and a detached tooltip, so the skipped update leaves
  no data and no attachment.
\<close>

theorem unset_cursor_skips_resolution:
  "(cursorXLocation c = None \<longrightarrow>
      updateCursoredDataAndTooltipVisibility h i c = c \<and> ngOnChanges h i c = c)
   \<and> (cursorXLocation (run h es initial) = None \<longrightarrow>
        cursoredData (updateCursoredDataAndTooltipVisibility h i (run h es initial)) = []
        \<and> \<not> tooltipDislayAttached (updateCursoredDataAndTooltipVisibility h i (run h es initial)))"
proof -
  have "cursorUnsetInv (run h es initial)"
    using cursorUnsetInv_initial by (rule cursorUnsetInv_run)
  then show ?thesis
    by (auto simp: update_skips ngOnChanges_def cursorUnsetInv_def)
qed

theorem unset_cursor_skips_resolution_witness:
  "cursorXLocation (run ex_helpers ex_before_cursor initial) = None
   \<and> updateCursoredDataAndTooltipVisibility ex_helpers ex_inputs (run ex_helpers ex_before_cursor initial)
       = run ex_helpers ex_before_cursor initial
   \<and> cursoredData (updateCursoredDataAndTooltipVisibility ex_helpers ex_inputs
        (run ex_helpers ex_before_cursor initial)) = []
   \<and> \<not> tooltipDislayAttached (updateCursoredDataAndTooltipVisibility ex_helpers ex_inputs
        (run ex_helpers ex_before_cursor initial))"
proof -
  have unset: "cursorXLocation (run ex_helpers ex_before_cursor initial) = None"
    by (simp add: ex_before_cursor_run)
  from unset_cursor_skips_resolution
    [of "run ex_helpers ex_before_cursor initial" ex_helpers ex_inputs ex_before_cursor] unset
  show ?thesis by blast
qed

subsection \<open>Mouse leave\<close>

text \<open>
  Claim C6. After a mouse leave, whatever the state before, the tooltip is detached, the
  state is \<open>NONE\<close> and the drag origin is cleared.
\<close>

theorem mouseleave_detaches_and_resets:
  "tooltipDislayAttached (snd (on_mouseleave h i event c)) = False
   \<and> state (snd (on_mouseleave h i event c)) = NONE
   \<and> dragStartCoord (snd (on_mouseleave h i event c)) = None"
  by (simp add: on_mouseleave_def updateTooltip_def updateCursoredDataAndTooltipVisibility_def Let_def)

text \<open>
  Claim C9, as stated: a mouse leave keeps \<open>cursorXLocation\<close> as it was. It does not: the
  handler calls \<open>updateTooltip\<close> with the leave event. After an enter at pixel x = 10 the
  cursor is at data position 5; a leave at pixel x = 30 moves it to 15.
\<close>

theorem mouseleave_retains_cursor_counterexample:
  "cursorXLocation ex_entered = Some 5
   \<and> cursorXLocation (snd (on_mouseleave ex_helpers ex_inputs (mouseAt 30 10) ex_entered)) = Some 15
   \<and> cursorXLocation (snd (on_mouseleave ex_helpers ex_inputs (mouseAt 30 10) ex_entered))
       \<noteq> cursorXLocation ex_entered"
  by (simp add: ex_entered_def on_mouseenter_def on_mouseleave_def Let_def updateTooltip_cursor
      ex_getDataX mouseAt_def)

text \<open>
  Claim C9, amended. A mouse leave sets \<open>cursorXLocation\<close> to the data position of the
  leave event's \<open>offsetX\<close>, so the position stays set but is resolved anew, and the
  cursor-inside flag is cleared.
\<close>

theorem mouseleave_resolves_cursor:
  "cursorXLocation (snd (on_mouseleave h i event c)) = Some (getDataX h i (offsetX event))
   \<and> isCursorInside (snd (on_mouseleave h i event c)) = False"
  by (simp add: on_mouseleave_def updateTooltip_def updateCursoredDataAndTooltipVisibility_def Let_def)

end
